theory Spec2Isabelle
  imports Main
begin

section \<open>The topic widget of the Squad dashboard\<close>

text \<open>
  The development follows \<^verbatim>\<open>src/squad/widgets/topic.py\<close> (the class
  \<^verbatim>\<open>TopicWidget\<close>) and the key bindings of \<^verbatim>\<open>src/squad/squad.py\<close>
  (the class \<^verbatim>\<open>Squad\<close>). The two attributes \<^verbatim>\<open>topic\<close> and
  \<^verbatim>\<open>topic_renderers\<close> are class attributes, shared by the whole process, so
  they are the fields of one state value that every method takes and returns.
\<close>

subsection \<open>Data\<close>

text \<open>
  One renderer class per topic (the imports of lines 10 to 20); the dictionary holds one
  instance of each. What an instance displays is decided by modules that are not part of
  these sources, so the outcome of a renderer's own \<^verbatim>\<open>render()\<close> is an
  argument of the model wherever it matters.
\<close>

datatype TopicRenderer =
    Assets
  | Datasets
  | DefinedExchangeRates
  | Instances
  | Merchants
  | Products
  | Projects
  | PersonalUnits
  | ServiceErrors
  | UndefinedExchangeRates
  | Units

text \<open>
  The observable effects of the widget's methods, in the order they happen: a call of
  \<^verbatim>\<open>warning(msg)\<close> and a call of the \<^verbatim>\<open>render()\<close> of a registered renderer.
\<close>

datatype effect =
    Warning string
  | RendererCall TopicRenderer

text \<open>
  Python exceptions: the failed \<^verbatim>\<open>assert\<close> of \<^verbatim>\<open>render\<close>, and whatever
  a renderer raises (identified by its message).
\<close>

datatype exn =
    AssertionError
  | Raised string

record TopicWidget =
  topic :: string
  topic_renderers :: "string \<rightharpoonup> TopicRenderer"
  effects :: "effect list"

text \<open>The class body, lines 27 to 40: the state when the module has been loaded.\<close>

definition TopicWidget_class :: TopicWidget where
  "TopicWidget_class =
     \<lparr> topic = ''instances'',
       topic_renderers = map_of
         [ (''assets'', Assets),
           (''datasets'', Datasets),
           (''defined-exchange-rates'', DefinedExchangeRates),
           (''instances'', Instances),
           (''merchants'', Merchants),
           (''products'', Products),
           (''projects'', Projects),
           (''personal-units'', PersonalUnits),
           (''service-errors'', ServiceErrors),
           (''undefined-exchange-rates'', UndefinedExchangeRates),
           (''units'', Units) ],
       effects = [] \<rparr>"

subsection \<open>Operations of the widget\<close>

text \<open>
  Modelled from the spec: \<^verbatim>\<open>squad.common.warning\<close> is imported by
  \<^verbatim>\<open>topic.py\<close> but its module is not among the sources. The specification says
  that the warning is surfaced to an operator-visible side channel (a log or a status
  line); here it is one entry appended to the record of effects.
\<close>

definition warning :: "string \<Rightarrow> TopicWidget \<Rightarrow> TopicWidget" where
  "warning msg s = s\<lparr>effects := effects s @ [Warning msg]\<rparr>"

text \<open>The f-string of line 48; \<open>CHR 0x27\<close> is the single quote.\<close>

definition unsupported_msg :: "string \<Rightarrow> string" where
  "unsupported_msg t = ''Unsupported topic: '' @ [CHR 0x27] @ t @ [CHR 0x27]"

text \<open>
  \<^verbatim>\<open>set_topic\<close>, lines 42 to 50. The method returns \<^verbatim>\<open>None\<close> on both paths:
  the first component of the result is the unit value.
\<close>

definition set_topic :: "string \<Rightarrow> TopicWidget \<Rightarrow> unit \<times> TopicWidget" where
  "set_topic t s =
     (if t \<notin> dom (topic_renderers s)
      then ((), warning (unsupported_msg t) s)
      else ((), s\<lparr>topic := t\<rparr>))"

text \<open>
  \<^verbatim>\<open>render\<close>, lines 57 to 61. The argument \<open>leaf\<close> is the outcome of the
  \<^verbatim>\<open>render()\<close> of each renderer at this call: a panel, or the exception it raises.
  \<^verbatim>\<open>render\<close> has no handler, so that exception is its own outcome.
\<close>

definition render :: "(TopicRenderer \<Rightarrow> exn + 'p) \<Rightarrow> TopicWidget \<Rightarrow> (exn + 'p) \<times> TopicWidget" where
  "render leaf s =
     (case topic_renderers s (topic s) of
        None \<Rightarrow> (Inl AssertionError, s)
      | Some r \<Rightarrow> (leaf r, s\<lparr>effects := effects s @ [RendererCall r]\<rparr>))"

text \<open>
  \<^verbatim>\<open>on_mount\<close>, lines 52 to 55: one call \<^verbatim>\<open>self.set_interval(2, self.refresh)\<close>.
  The model returns the timers the call registers. The instance \<open>self\<close> is opaque:
  the class defines no constructor and no instance attribute.
\<close>

datatype callback = Refresh

record timer =
  interval :: int
  callback :: callback

definition set_interval :: "int \<Rightarrow> callback \<Rightarrow> timer" where
  "set_interval period cb = \<lparr> interval = period, callback = cb \<rparr>"

definition on_mount :: "'self \<Rightarrow> timer list" where
  "on_mount self = [set_interval 2 Refresh]"

subsection \<open>The key bindings of the application\<close>

text \<open>
  \<^verbatim>\<open>Squad.on_load\<close>, lines 26 to 41 of \<^verbatim>\<open>squad.py\<close>. An action string is
  read by the framework as the name of an \<^verbatim>\<open>action_\<close> method and its arguments:
  \<^verbatim>\<open>"quit"\<close> is \<open>Quit\<close> and \<^verbatim>\<open>"topic('assets')"\<close> is \<open>Topic ''assets''\<close>.
  A later \<^verbatim>\<open>bind\<close> of a key replaces an earlier one.
\<close>

datatype action =
    Quit
  | Topic string

type_synonym bindings = "string \<rightharpoonup> action"

definition bind :: "string \<Rightarrow> action \<Rightarrow> bindings \<Rightarrow> bindings" where
  "bind key a b = b(key \<mapsto> a)"

definition on_load :: bindings where
  "on_load =
     foldl (\<lambda>b (key, a). bind key a b) Map.empty
       [ (''Q'', Quit),
         (''a'', Topic ''assets''),
         (''d'', Topic ''datasets''),
         (''i'', Topic ''instances''),
         (''m'', Topic ''merchants''),
         (''n'', Topic ''personal-units''),
         (''o'', Topic ''units''),
         (''p'', Topic ''projects''),
         (''r'', Topic ''defined-exchange-rates''),
         (''s'', Topic ''service-errors''),
         (''t'', Topic ''products''),
         (''u'', Topic ''undefined-exchange-rates'') ]"

text \<open>\<^verbatim>\<open>Squad.action_topic\<close>, lines 94 to 100: it passes its argument on.\<close>

definition action_topic :: "string \<Rightarrow> TopicWidget \<Rightarrow> unit \<times> TopicWidget" where
  "action_topic t s = set_topic t s"

text \<open>
  A key press, as the framework dispatches it and as the specification describes the
  command surface: the bound action runs; a key with no binding does nothing and never
  reaches \<^verbatim>\<open>set_topic\<close>. \<open>Quit\<close> ends the application and leaves the widget's
  state as it is.
\<close>

definition key_press :: "string \<Rightarrow> TopicWidget \<Rightarrow> TopicWidget" where
  "key_press key s =
     (case on_load key of
        None \<Rightarrow> s
      | Some Quit \<Rightarrow> s
      | Some (Topic t) \<Rightarrow> snd (action_topic t s))"

subsection \<open>Executions\<close>

text \<open>
  An execution is a sequence of calls on the class state, started from the class body.
  Each \<open>Render\<close> carries what the renderers do at that call, so a renderer may fail at
  one call and succeed at the next.
\<close>

datatype 'p call =
    SetTopic string
  | ActionTopic string
  | KeyPress string
  | Render "TopicRenderer \<Rightarrow> exn + 'p"

fun step :: "TopicWidget \<Rightarrow> 'p call \<Rightarrow> TopicWidget" where
  "step s (SetTopic t) = snd (set_topic t s)"
| "step s (ActionTopic t) = snd (action_topic t s)"
| "step s (KeyPress k) = key_press k s"
| "step s (Render leaf) = snd (render leaf s)"

definition run :: "'p call list \<Rightarrow> TopicWidget" where
  "run cs = foldl step TopicWidget_class cs"

text \<open>The assertion of line 60, as a predicate of the state.\<close>

definition topic_ok :: "TopicWidget \<Rightarrow> bool" where
  "topic_ok s = (topic s \<in> dom (topic_renderers s))"

section \<open>Properties\<close>

subsection \<open>What each operation leaves alone\<close>

lemma topic_render: "topic (snd (render leaf s)) = topic s"
  by (simp add: render_def split: option.split)

lemma registry_set_topic: "topic_renderers (snd (set_topic t s)) = topic_renderers s"
  by (simp add: set_topic_def warning_def)

lemma registry_render: "topic_renderers (snd (render leaf s)) = topic_renderers s"
  by (simp add: render_def split: option.split)

lemma registry_key_press: "topic_renderers (key_press k s) = topic_renderers s"
  by (simp add: key_press_def action_topic_def registry_set_topic
      split: option.split action.split)

lemma registry_step: "topic_renderers (step s c) = topic_renderers s"
  by (cases c)
    (simp_all add: registry_set_topic registry_render registry_key_press action_topic_def)

lemma registry_foldl: "topic_renderers (foldl step s cs) = topic_renderers s"
  by (induction cs arbitrary: s) (simp_all add: registry_step)

lemma registry_run: "topic_renderers (run cs) = topic_renderers TopicWidget_class"
  by (simp add: run_def registry_foldl)

subsection \<open>The registry\<close>

lemma registry_keys:
  "dom (topic_renderers TopicWidget_class) =
     {''assets'', ''datasets'', ''defined-exchange-rates'', ''instances'', ''merchants'',
      ''products'', ''projects'', ''personal-units'', ''service-errors'',
      ''undefined-exchange-rates'', ''units''}"
  by (simp add: TopicWidget_class_def dom_map_of_conv_image_fst)

lemma registry_card: "card (dom (topic_renderers TopicWidget_class)) = 11"
  by (simp add: registry_keys)

lemma registry_inj:
  "inj_on (topic_renderers TopicWidget_class) (dom (topic_renderers TopicWidget_class))"
  unfolding registry_keys by (simp add: TopicWidget_class_def)

text \<open>
  C6. The registry built by the class body has exactly the eleven topic identifiers as
  its keys, and no two keys share a renderer. No operation changes it: \<^verbatim>\<open>set_topic\<close>,
  \<^verbatim>\<open>render\<close> and a key press return the dictionary they were given, so after any
  execution it is still the dictionary of the class body.
\<close>

theorem registry_fixed:
  "dom (topic_renderers TopicWidget_class) =
     {''assets'', ''datasets'', ''defined-exchange-rates'', ''instances'', ''merchants'',
      ''products'', ''projects'', ''personal-units'', ''service-errors'',
      ''undefined-exchange-rates'', ''units''} \<and>
   card (dom (topic_renderers TopicWidget_class)) = 11 \<and>
   inj_on (topic_renderers TopicWidget_class) (dom (topic_renderers TopicWidget_class)) \<and>
   topic_renderers (snd (set_topic t s)) = topic_renderers s \<and>
   topic_renderers (snd (render leaf s)) = topic_renderers s \<and>
   topic_renderers (key_press k s) = topic_renderers s \<and>
   topic_renderers (run cs) = topic_renderers TopicWidget_class"
  using registry_keys registry_card registry_inj registry_set_topic [of t s]
    registry_render [of leaf s] registry_key_press [of k s] registry_run [of cs]
  by (intro conjI)

subsection \<open>The initial topic\<close>

text \<open>
  C7. The topic state starts as \<open>''instances''\<close>: it is the value of the class body, and
  it is still the value after any number of renders, as long as no call changes the topic.
\<close>

theorem topic_default:
  "topic TopicWidget_class = ''instances'' \<and>
   topic (run (map Render leaves)) = ''instances''"
proof -
  have "topic (foldl step s (map Render leaves)) = topic s" for s
    by (induction leaves arbitrary: s) (simp_all add: topic_render)
  then show ?thesis
    by (simp add: run_def TopicWidget_class_def)
qed

subsection \<open>The topic is always a registry key\<close>

lemma ok_class: "topic_ok TopicWidget_class"
  by (simp add: topic_ok_def TopicWidget_class_def)

lemma ok_set_topic: "topic_ok s \<Longrightarrow> topic_ok (snd (set_topic t s))"
  by (auto simp add: topic_ok_def set_topic_def warning_def)

lemma ok_render: "topic_ok s \<Longrightarrow> topic_ok (snd (render leaf s))"
  by (simp add: topic_ok_def registry_render topic_render)

lemma ok_key_press: "topic_ok s \<Longrightarrow> topic_ok (key_press k s)"
  by (simp add: key_press_def action_topic_def ok_set_topic
      split: option.split action.split)

lemma ok_step: "topic_ok s \<Longrightarrow> topic_ok (step s c)"
  by (cases c) (simp_all add: ok_set_topic ok_render ok_key_press action_topic_def)

lemma ok_foldl: "topic_ok s \<Longrightarrow> topic_ok (foldl step s cs)"
  by (induction cs arbitrary: s) (simp_all add: ok_step)

lemma ok_run: "topic_ok (run cs)"
  by (simp add: run_def ok_foldl ok_class)

lemma set_topic_assigns_key:
  "topic (snd (set_topic t s)) \<in> insert (topic s) (dom (topic_renderers s))"
  by (auto simp add: set_topic_def warning_def)

lemma render_ok:
  "topic_ok s \<Longrightarrow>
   \<exists>r. topic_renderers s (topic s) = Some r \<and> fst (render leaf s) = leaf r"
  by (auto simp add: topic_ok_def render_def)

text \<open>
  C1. The topic of the class body is a key of the registry; \<^verbatim>\<open>set_topic\<close> either
  keeps the topic or assigns a key of the registry; so after every execution (any
  sequence of \<^verbatim>\<open>set_topic\<close> calls, key presses and renders) the topic is a key of
  the registry, and the assertion of \<^verbatim>\<open>render\<close> holds there: the outcome of
  \<^verbatim>\<open>render\<close> is the outcome of the renderer registered for the topic, never the
  failed assertion of line 60.
\<close>

theorem topic_always_registered:
  "topic TopicWidget_class \<in> dom (topic_renderers TopicWidget_class) \<and>
   topic (snd (set_topic t s)) \<in> insert (topic s) (dom (topic_renderers s)) \<and>
   topic (run cs) \<in> dom (topic_renderers (run cs)) \<and>
   (\<exists>r. topic_renderers (run cs) (topic (run cs)) = Some r \<and>
        fst (render leaf (run cs)) = leaf r)"
  using ok_class ok_run [of cs] set_topic_assigns_key [of t s]
    render_ok [OF ok_run, of cs leaf]
  by (simp add: topic_ok_def)

subsection \<open>Accepted and rejected transitions\<close>

lemma set_topic_accept:
  "t \<in> dom (topic_renderers s) \<Longrightarrow> snd (set_topic t s) = s\<lparr>topic := t\<rparr>"
  by (simp add: set_topic_def)

lemma set_topic_reject:
  "t \<notin> dom (topic_renderers s) \<Longrightarrow>
   snd (set_topic t s) = s\<lparr>effects := effects s @ [Warning (unsupported_msg t)]\<rparr>"
  by (simp add: set_topic_def warning_def)

lemma assets_registered: "''assets'' \<in> dom (topic_renderers TopicWidget_class)"
  by (simp add: registry_keys)

lemma units_registered: "''units'' \<in> dom (topic_renderers TopicWidget_class)"
  by (simp add: registry_keys)

lemma bogus_unregistered: "''bogus'' \<notin> dom (topic_renderers TopicWidget_class)"
  by (simp add: registry_keys)

text \<open>
  C2. For a key \<open>t\<close> of the registry, the topic read after \<^verbatim>\<open>set_topic(t)\<close> is
  \<open>t\<close>, whatever the state (and so whatever the topic) before the call.
\<close>

theorem set_topic_supported:
  "t \<in> dom (topic_renderers s) \<Longrightarrow> topic (snd (set_topic t s)) = t"
  by (simp add: set_topic_accept)

theorem set_topic_supported_witness:
  "''units'' \<in> dom (topic_renderers TopicWidget_class) \<and>
   topic (snd (set_topic ''units'' TopicWidget_class)) = ''units''"
  by (rule conjI [OF units_registered set_topic_supported [OF units_registered]])

text \<open>
  C3. For a string \<open>t\<close> that is not a key of the registry, \<^verbatim>\<open>set_topic(t)\<close>
  leaves the topic as it was, and its effects are exactly one warning (the message of
  line 48): nothing else is appended, so no renderer is called.
\<close>

theorem set_topic_unsupported:
  "t \<notin> dom (topic_renderers s) \<Longrightarrow>
   topic (snd (set_topic t s)) = topic s \<and>
   effects (snd (set_topic t s)) = effects s @ [Warning (unsupported_msg t)]"
  by (simp add: set_topic_reject)

theorem set_topic_unsupported_witness:
  "''bogus'' \<notin> dom (topic_renderers TopicWidget_class) \<and>
   topic (snd (set_topic ''bogus'' TopicWidget_class)) = topic TopicWidget_class \<and>
   effects (snd (set_topic ''bogus'' TopicWidget_class)) =
     effects TopicWidget_class @ [Warning (unsupported_msg ''bogus'')]"
  by (rule conjI [OF bogus_unregistered set_topic_unsupported [OF bogus_unregistered]])

text \<open>
  C4, as stated: the value \<^verbatim>\<open>set_topic\<close> returns tells an accepted transition from
  a rejected one. It does not: \<open>''assets''\<close> is accepted, \<open>''bogus''\<close> is rejected, and
  the two calls return the same value, \<^verbatim>\<open>None\<close>.
\<close>

theorem set_topic_result_same:
  "''assets'' \<in> dom (topic_renderers TopicWidget_class) \<and>
   ''bogus'' \<notin> dom (topic_renderers TopicWidget_class) \<and>
   fst (set_topic ''assets'' TopicWidget_class) = fst (set_topic ''bogus'' TopicWidget_class)"
  using assets_registered bogus_unregistered by simp

text \<open>
  C4, amended: \<^verbatim>\<open>set_topic\<close> returns \<^verbatim>\<open>None\<close> for every candidate. What tells
  the two outcomes apart is the state it leaves: an accepted candidate becomes the topic and
  no effect is recorded; a rejected one leaves the topic and records one warning.
\<close>

theorem set_topic_returns_none:
  "fst (set_topic c s) = () \<and>
   topic (snd (set_topic c s)) = (if c \<in> dom (topic_renderers s) then c else topic s) \<and>
   effects (snd (set_topic c s)) =
     effects s @ (if c \<in> dom (topic_renderers s) then [] else [Warning (unsupported_msg c)])"
  by (simp add: set_topic_def warning_def)

subsection \<open>The refresh period\<close>

lemma on_mount_timers: "on_mount self = [\<lparr> interval = 2, callback = Refresh \<rparr>]"
  by (simp add: on_mount_def set_interval_def)

text \<open>
  C8, as stated: the period is 2 by default and can be chosen when the widget is
  constructed. The second part fails: no two instances, whatever their construction made of
  them (here they are told apart by a number), register different periods: each registers
  the period 2.
\<close>

theorem period_not_configurable:
  "\<not> (\<exists>(self :: nat) (other :: nat).
        map interval (on_mount self) \<noteq> map interval (on_mount other)) \<and>
   map interval (on_mount (0 :: nat)) = [2] \<and>
   map interval (on_mount (1 :: nat)) = [2]"
  by (simp add: on_mount_timers)

text \<open>
  C8, amended: \<^verbatim>\<open>on_mount\<close> registers one timer, with the period 2 and the
  widget's \<^verbatim>\<open>refresh\<close> as its callback, for every instance; the period is the literal
  of line 55 and nothing of the instance enters it.
\<close>

theorem period_fixed:
  "on_mount self = [\<lparr> interval = 2, callback = Refresh \<rparr>] \<and>
   map interval (on_mount self) = [2]"
  by (simp add: on_mount_timers)

subsection \<open>A renderer that raises\<close>

text \<open>
  \<^verbatim>\<open>render\<close> has no handler of its own: when the renderer registered for the topic
  raises, that exception is the outcome of \<^verbatim>\<open>render\<close>, and the topic and the
  registry are as before. What the framework's timer does with it is outside these sources.
\<close>

lemma render_propagates:
  "topic_renderers s (topic s) = Some r \<Longrightarrow> leaf r = Inl e \<Longrightarrow>
   fst (render leaf s) = Inl e \<and>
   topic (snd (render leaf s)) = topic s \<and>
   topic_renderers (snd (render leaf s)) = topic_renderers s"
  by (simp add: render_def)

subsection \<open>Bound keys\<close>

lemma bound_keys:
  "dom on_load =
     {''Q'', ''a'', ''d'', ''i'', ''m'', ''n'', ''o'', ''p'', ''r'', ''s'', ''t'', ''u''}"
  by (auto simp add: on_load_def bind_def split: if_splits)

lemma bound_topics:
  "on_load k = Some (Topic t) \<Longrightarrow> t \<in> dom (topic_renderers TopicWidget_class)"
  by (auto simp add: on_load_def bind_def registry_keys split: if_splits)

lemma on_load_r: "on_load ''r'' = Some (Topic ''defined-exchange-rates'')"
  by (simp add: on_load_def bind_def)

text \<open>
  C10. If a key is bound to a topic action, its topic is a key of the registry in every
  reachable state, so the call of \<^verbatim>\<open>set_topic\<close> that \<^verbatim>\<open>action_topic\<close> makes takes
  the accepting branch: the state after the key press is the state before with the topic
  replaced, and no warning is recorded.
\<close>

theorem bound_key_accepted:
  "on_load k = Some (Topic t) \<Longrightarrow>
   t \<in> dom (topic_renderers (run cs)) \<and>
   snd (action_topic t (run cs)) = (run cs)\<lparr>topic := t\<rparr> \<and>
   key_press k (run cs) = (run cs)\<lparr>topic := t\<rparr> \<and>
   effects (key_press k (run cs)) = effects (run cs)"
proof -
  assume b: "on_load k = Some (Topic t)"
  have d: "t \<in> dom (topic_renderers (run cs))"
    using bound_topics [OF b] by (simp add: registry_run)
  have a: "snd (action_topic t (run cs)) = (run cs)\<lparr>topic := t\<rparr>"
    using set_topic_accept [OF d] by (simp add: action_topic_def)
  have p: "key_press k (run cs) = (run cs)\<lparr>topic := t\<rparr>"
    using a b by (simp add: key_press_def)
  show ?thesis
    using d a p by simp
qed

theorem bound_key_accepted_witness:
  "on_load ''r'' = Some (Topic ''defined-exchange-rates'') \<and>
   ''defined-exchange-rates'' \<in> dom (topic_renderers (run [SetTopic ''bogus'' :: nat call])) \<and>
   snd (action_topic ''defined-exchange-rates'' (run [SetTopic ''bogus'' :: nat call])) =
     (run [SetTopic ''bogus'' :: nat call])\<lparr>topic := ''defined-exchange-rates''\<rparr> \<and>
   key_press ''r'' (run [SetTopic ''bogus'' :: nat call]) =
     (run [SetTopic ''bogus'' :: nat call])\<lparr>topic := ''defined-exchange-rates''\<rparr> \<and>
   effects (key_press ''r'' (run [SetTopic ''bogus'' :: nat call])) =
     effects (run [SetTopic ''bogus'' :: nat call])"
  by (rule conjI [OF on_load_r bound_key_accepted [OF on_load_r]])

end
